theory Spec2Isabelle
  imports Main "HOL-Library.Sublist"
begin

section \<open>The platform the widget runs on\<close>

text \<open>
  The two components of \<^verbatim>\<open>CopyStyledLinkButton.tsx\<close> have no state of their own: all
  they do is drive the browser. The browser is modelled as a value that is passed in and
  returned: the children the code appended to \<^verbatim>\<open>document.body\<close>, the window's
  selection, the system clipboard, the dialogs shown by \<^verbatim>\<open>alert\<close> and the lines
  written by \<^verbatim>\<open>console.error\<close>.
\<close>

text \<open>
  The clipboard holds at most one entry; the two representations the code deals with are
  \<^verbatim>\<open>text/html\<close> and \<^verbatim>\<open>text/plain\<close>. \<open>None\<close> means the entry has no such
  representation.
\<close>

record clipboard_entry =
  html_rep :: "string option"
  plain_rep :: "string option"

datatype tag = Textarea | Div

text \<open>
  An element, with the properties the code assigns: \<^verbatim>\<open>value\<close> (of the textarea),
  \<^verbatim>\<open>innerHTML\<close>, \<^verbatim>\<open>style.position\<close>, \<^verbatim>\<open>style.opacity\<close> and
  \<^verbatim>\<open>contentEditable\<close>. \<open>elem_id\<close> is the identity of the object.
\<close>

record element =
  elem_id :: nat
  tag_name :: tag
  val :: string
  innerHTML :: string
  style_position :: string
  style_opacity :: string
  contentEditable :: string

text \<open>The range built by \<^verbatim>\<open>range.selectNodeContents(node)\<close>.\<close>

datatype range = NodeContents nat

text \<open>
  \<open>selection\<close> is what \<^verbatim>\<open>window.getSelection()\<close> returns: \<open>None\<close> when it
  returns \<^verbatim>\<open>null\<close> (the case the source's \<^verbatim>\<open>selection?.\<close> guards), otherwise
  the ranges of the selection. \<open>text_selected\<close> is the text control whose text was
  selected by \<^verbatim>\<open>select()\<close>, if that is the active selection.
\<close>

record document =
  body_children :: "element list"
  fresh :: nat
  selection :: "range list option"
  text_selected :: "nat option"
  clipboard :: clipboard_entry
  alerts :: "string list"
  console_errors :: "string list"

text \<open>
  What the platform answers during one invocation. Each operation calls
  \<^verbatim>\<open>navigator.clipboard.write\<close> and \<^verbatim>\<open>document.execCommand("copy")\<close> at most once.
  \<^item> \<open>WriteRejects\<close> stands for every way the \<^verbatim>\<open>try\<close> block of
    \<^verbatim>\<open>copyFormattedLink\<close> fails: \<^verbatim>\<open>ClipboardItem\<close> or \<^verbatim>\<open>navigator.clipboard\<close>
    missing, permission denied, the promise rejecting.
  \<^item> \<^verbatim>\<open>execCommand\<close> returns \<^verbatim>\<open>true\<close>, returns \<^verbatim>\<open>false\<close>, or throws; these are
    the three cases \<^verbatim>\<open>copyStyledLink\<close> tells apart.
  \<^item> \<open>text_of_markup\<close> is the plain text the platform derives from rendered markup
    when it copies a selected range.
\<close>

datatype write_outcome = WriteResolves | WriteRejects

datatype exec_outcome = ExecTrue | ExecFalse | ExecThrows

record platform =
  clipboard_write :: write_outcome
  exec_copy :: exec_outcome
  text_of_markup :: "string \<Rightarrow> string"

subsection \<open>DOM primitives\<close>

text \<open>\<^verbatim>\<open>document.createElement(tag)\<close>: a new, detached element with empty properties.\<close>

definition createElement :: "tag \<Rightarrow> document \<Rightarrow> element \<times> document" where
  "createElement t d =
     (\<lparr>elem_id = fresh d, tag_name = t, val = [], innerHTML = [],
       style_position = [], style_opacity = [], contentEditable = []\<rparr>,
      d\<lparr>fresh := Suc (fresh d)\<rparr>)"

text \<open>
  \<^verbatim>\<open>document.body.appendChild(e)\<close>: \<open>e\<close> becomes the last child (a node that is already
  a child is moved, so no identity occurs twice).
\<close>

definition appendChild :: "element \<Rightarrow> document \<Rightarrow> document" where
  "appendChild e d =
     d\<lparr>body_children := filter (\<lambda>x. elem_id x \<noteq> elem_id e) (body_children d) @ [e]\<rparr>"

text \<open>
  \<^verbatim>\<open>document.body.removeChild(e)\<close>. Both call sites remove an element they appended
  themselves, so the \<^verbatim>\<open>NotFoundError\<close> of the DOM cannot arise. A removed text control
  no longer holds the active selection.
\<close>

definition removeChild :: "element \<Rightarrow> document \<Rightarrow> document" where
  "removeChild e d =
     d\<lparr>body_children := filter (\<lambda>x. elem_id x \<noteq> elem_id e) (body_children d),
       text_selected := (if text_selected d = Some (elem_id e) then None else text_selected d)\<rparr>"

text \<open>\<^verbatim>\<open>textArea.select()\<close>: the whole text of the control becomes the active selection.\<close>

definition select_text :: "element \<Rightarrow> document \<Rightarrow> document" where
  "select_text e d = d\<lparr>text_selected := Some (elem_id e)\<rparr>"

text \<open>\<^verbatim>\<open>selection?.removeAllRanges()\<close>: nothing happens when there is no selection object.\<close>

definition removeAllRanges :: "document \<Rightarrow> document" where
  "removeAllRanges d = d\<lparr>selection := map_option (\<lambda>_. []) (selection d)\<rparr>"

text \<open>
  \<^verbatim>\<open>selection?.addRange(range)\<close>: the range joins the selection, which becomes the active
  one; nothing happens when there is no selection object.
\<close>

definition addRange :: "range \<Rightarrow> document \<Rightarrow> document" where
  "addRange r d =
     (case selection d of
        None \<Rightarrow> d
      | Some rs \<Rightarrow> d\<lparr>selection := Some (rs @ [r]), text_selected := None\<rparr>)"

definition alert :: "string \<Rightarrow> document \<Rightarrow> document" where
  "alert msg d = d\<lparr>alerts := alerts d @ [msg]\<rparr>"

definition console_error :: "string \<Rightarrow> document \<Rightarrow> document" where
  "console_error msg d = d\<lparr>console_errors := console_errors d @ [msg]\<rparr>"

definition lookup :: "nat \<Rightarrow> document \<Rightarrow> element option" where
  "lookup i d = find (\<lambda>e. elem_id e = i) (body_children d)"

text \<open>
  What a successful copy command puts on the clipboard. The selected text of a text
  control is copied as plain text only. A selected range is copied in both
  representations: the markup of the selected node's contents, and the text the platform
  derives from it. With nothing selected the clipboard keeps its entry.
\<close>

definition copied :: "platform \<Rightarrow> document \<Rightarrow> clipboard_entry" where
  "copied p d =
     (case text_selected d of
        Some i \<Rightarrow>
          (case lookup i d of
             Some e \<Rightarrow> \<lparr>html_rep = None, plain_rep = Some (val e)\<rparr>
           | None \<Rightarrow> clipboard d)
      | None \<Rightarrow>
          (case selection d of
             Some (NodeContents i # _) \<Rightarrow>
               (case lookup i d of
                  Some e \<Rightarrow> \<lparr>html_rep = Some (innerHTML e),
                             plain_rep = Some (text_of_markup p (innerHTML e))\<rparr>
                | None \<Rightarrow> clipboard d)
           | _ \<Rightarrow> clipboard d))"

text \<open>
  The effect of \<^verbatim>\<open>document.execCommand("copy")\<close> on the document; its result
  (\<^verbatim>\<open>true\<close>, \<^verbatim>\<open>false\<close> or an exception) is \<open>exec_copy p\<close>, on which the callers
  branch.
\<close>

definition execCommand_copy :: "platform \<Rightarrow> document \<Rightarrow> document" where
  "execCommand_copy p d =
     (case exec_copy p of
        ExecTrue \<Rightarrow> d\<lparr>clipboard := copied p d\<rparr>
      | ExecFalse \<Rightarrow> d
      | ExecThrows \<Rightarrow> d)"

text \<open>
  \<^verbatim>\<open>navigator.clipboard.write([new ClipboardItem({"text/html": h, "text/plain": t})])\<close>,
  when it resolves: the entry replaces what the clipboard held.
\<close>

definition clipboard_write_item :: "string \<Rightarrow> string \<Rightarrow> document \<Rightarrow> document" where
  "clipboard_write_item h t d = d\<lparr>clipboard := \<lparr>html_rep = Some h, plain_rep = Some t\<rparr>\<rparr>"

section \<open>copyFormattedLink\<close>

definition url :: string where
  "url = ''https://your-domain.com/your-path''"

definition buttonHtml :: string where
  \<open>buttonHtml =
     ''\<newline>'' @
     ''      <!--[if mso]>\<newline>'' @
     ''      <div style="display: inline-block; mso-hide:all;">\<newline>'' @
     ''        <a href="'' @ url @ ''" style="text-decoration: none;">\<newline>'' @
     ''          <v:roundrect xmlns:v="urn:schemas-microsoft-com:vml"\<newline>'' @
     ''            xmlns:w="urn:schemas-microsoft-com:office:word"\<newline>'' @
     ''            style="height:38px;width:120px;"\<newline>'' @
     ''            arcsize="10%"\<newline>'' @
     ''            strokecolor="#ff4444"\<newline>'' @
     ''            fillcolor="#ff4444">\<newline>'' @
     ''            <v:textbox inset="0,0,0,0">\<newline>'' @
     ''              <center style="color:#ffffff;\<newline>'' @
     ''                font-family:Arial,sans-serif;\<newline>'' @
     ''                font-size:14px;\<newline>'' @
     ''                margin-top: 9px;">\<newline>'' @
     ''                Click Here\<newline>'' @
     ''              </center>\<newline>'' @
     ''            </v:textbox>\<newline>'' @
     ''          </v:roundrect>\<newline>'' @
     ''        </a>\<newline>'' @
     ''      </div>\<newline>'' @
     ''      <![endif]-->\<newline>'' @
     ''      <!--[if !mso]><!-- -->\<newline>'' @
     ''      <a href="'' @ url @ ''"\<newline>'' @
     ''         style="\<newline>'' @
     ''           display: inline-block;\<newline>'' @
     ''           background-color: #ff4444;\<newline>'' @
     ''           color: white !important;\<newline>'' @
     ''           padding: 8px 16px;\<newline>'' @
     ''           text-decoration: none;\<newline>'' @
     ''           border-radius: 4px;\<newline>'' @
     ''           font-family: Arial, sans-serif;\<newline>'' @
     ''           font-size: 14px;\<newline>'' @
     ''           border: 0;\<newline>'' @
     ''           mso-hide:all;\<newline>'' @
     ''         ">\<newline>'' @
     ''        Click Here\<newline>'' @
     ''      </a>\<newline>'' @
     ''      <!--<![endif]-->\<newline>'' @
     ''    ''\<close>

definition fullHtml :: string where
  \<open>fullHtml =
     ''\<newline>'' @
     ''      <meta http-equiv="Content-Type" content="text/html; charset=utf-8">\<newline>'' @
     ''      <div style="mso-hide:all; display: inline-block;">\<newline>'' @
     ''        '' @ buttonHtml @ ''\<newline>'' @
     ''      </div>\<newline>'' @
     ''    ''\<close>

definition plainText :: string where
  "plainText = url"

text \<open>
  How the promise of the \<^verbatim>\<open>async\<close> function settles: fulfilled, or rejected because
  an exception left the function.
\<close>

datatype completion = Fulfilled | Rejected

text \<open>
  The \<^verbatim>\<open>try\<close> block writes the two blobs and confirms. The \<^verbatim>\<open>catch\<close> block is the
  textarea fallback; it has no handler of its own, so an exception of
  \<^verbatim>\<open>execCommand\<close> leaves the function at that statement, before
  \<^verbatim>\<open>removeChild\<close> and \<^verbatim>\<open>alert\<close>.
\<close>

definition copyFormattedLink :: "platform \<Rightarrow> document \<Rightarrow> completion \<times> document" where
  "copyFormattedLink p d =
     (case clipboard_write p of
        WriteResolves \<Rightarrow>
          (Fulfilled, alert ''Copied formatted link!'' (clipboard_write_item fullHtml plainText d))
      | WriteRejects \<Rightarrow>
          (let (created, d1) = createElement Textarea d;
               textArea = created\<lparr>val := plainText\<rparr>;
               d2 = appendChild textArea d1;
               d3 = select_text textArea d2;
               d4 = execCommand_copy p d3
           in case exec_copy p of
                ExecThrows \<Rightarrow> (Rejected, d4)
              | _ \<Rightarrow> (Fulfilled, alert ''URL copied as plain text'' (removeChild textArea d4))))"

section \<open>copyStyledLink\<close>

definition html :: string where
  \<open>html =
     ''\<newline>'' @
     ''      <a href="https://example.com" style="\<newline>'' @
     ''        display: inline-block;\<newline>'' @
     ''        padding: 8px 16px;\<newline>'' @
     ''        background-color: #0078D4;\<newline>'' @
     ''        color: white;\<newline>'' @
     ''        text-decoration: none;\<newline>'' @
     ''        border-radius: 6px;\<newline>'' @
     ''        font-family: 'Segoe UI', sans-serif;\<newline>'' @
     ''        font-size: 14px;\<newline>'' @
     ''      ">Click Me</a>''\<close>

text \<open>
  The statements before the \<^verbatim>\<open>try\<close>: the container is created, filled, appended,
  and its contents made the only range of the selection. The result is the container and
  the document as \<^verbatim>\<open>execCommand\<close> finds it.
\<close>

definition stageContainer :: "document \<Rightarrow> element \<times> document" where
  "stageContainer d =
     (let (created, d1) = createElement Div d;
          container = created\<lparr>innerHTML := html, style_position := ''fixed'',
                              style_opacity := ''0'', contentEditable := ''true''\<rparr>;
          d2 = appendChild container d1;
          r = NodeContents (elem_id container);
          d3 = removeAllRanges d2;
          d4 = addRange r d3
      in (container, d4))"

text \<open>
  The \<^verbatim>\<open>try\<close>/\<^verbatim>\<open>catch\<close> around the copy command, then the two clean-up statements,
  which every path reaches. Of \<^verbatim>\<open>console.error("Copy failed", err)\<close> the message is kept.
\<close>

definition copyStyledLink :: "platform \<Rightarrow> document \<Rightarrow> document" where
  "copyStyledLink p d =
     (let (container, d4) = stageContainer d;
          d5 = execCommand_copy p d4;
          d6 = (case exec_copy p of
                  ExecTrue \<Rightarrow> alert ''Styled link copied! Paste into Outlook!'' d5
                | ExecFalse \<Rightarrow> console_error ''Copy command was unsuccessful'' d5
                | ExecThrows \<Rightarrow> console_error ''Copy failed'' d5);
          d7 = removeAllRanges d6
      in removeChild container d7)"

section \<open>Reading the markup and the document\<close>






text \<open>Whether the element with identity \<open>i\<close> is a child of the body.\<close>

definition attached :: "nat \<Rightarrow> document \<Rightarrow> bool" where
  "attached i d = (lookup i d \<noteq> None)"

text \<open>\<^verbatim>\<open>Selection.rangeCount\<close>; a window without a selection object has no range.\<close>

definition rangeCount :: "document \<Rightarrow> nat" where
  "rangeCount d = (case selection d of None \<Rightarrow> 0 | Some rs \<Rightarrow> length rs)"

subsection \<open>A sample platform and two sample pages\<close>

text \<open>
  A platform that derives the plain text of copied markup by dropping the tags, a page
  with an empty body, an empty selection and an empty clipboard, and the same page in a
  window whose \<^verbatim>\<open>getSelection()\<close> returns \<^verbatim>\<open>null\<close>.
\<close>

fun strip_tags :: "bool \<Rightarrow> string \<Rightarrow> string" where
  "strip_tags inside [] = []"
| "strip_tags inside (c # cs) =
     (if c = CHR ''<'' then strip_tags True cs
      else if c = CHR ''>'' then strip_tags False cs
      else if inside then strip_tags inside cs
      else c # strip_tags inside cs)"

definition sample_platform :: "write_outcome \<Rightarrow> exec_outcome \<Rightarrow> platform" where
  "sample_platform w e =
     \<lparr>clipboard_write = w, exec_copy = e, text_of_markup = strip_tags False\<rparr>"

definition empty_page :: document where
  "empty_page =
     \<lparr>body_children = [], fresh = 0, selection = Some [], text_selected = None,
      clipboard = \<lparr>html_rep = None, plain_rep = None\<rparr>, alerts = [], console_errors = []\<rparr>"


section \<open>Scanning the templates\<close>










section \<open>What the two operations leave behind\<close>

lemma find_appended:
  "elem_id e = i \<Longrightarrow> find (\<lambda>x. elem_id x = i) (filter (\<lambda>x. elem_id x \<noteq> i) xs @ [e]) = Some e"
  by (induction xs) simp_all

lemma find_removed: "find (\<lambda>x. elem_id x = i) (filter (\<lambda>x. elem_id x \<noteq> i) xs) = None"
  by (induction xs) simp_all

lemma fallback_copies_url:
  assumes "clipboard_write p = WriteRejects" and "exec_copy p = ExecTrue"
  shows "clipboard (snd (copyFormattedLink p d)) = \<lparr>html_rep = None, plain_rep = Some plainText\<rparr>"
  using assms
  by (simp add: copyFormattedLink_def createElement_def appendChild_def select_text_def
      execCommand_copy_def copied_def lookup_def removeChild_def alert_def find_appended)

lemma write_sets_both:
  assumes "clipboard_write p = WriteResolves"
  shows "clipboard (snd (copyFormattedLink p d)) = \<lparr>html_rep = Some fullHtml, plain_rep = Some plainText\<rparr>"
  using assms by (simp add: copyFormattedLink_def clipboard_write_item_def alert_def)

lemma container_staged:
  "fst (stageContainer d) =
     \<lparr>elem_id = fresh d, tag_name = Div, val = [], innerHTML = html,
      style_position = ''fixed'', style_opacity = ''0'', contentEditable = ''true''\<rparr>"
  by (simp add: stageContainer_def createElement_def Let_def)

lemma document_staged:
  "snd (stageContainer d) =
     d\<lparr>fresh := Suc (fresh d),
       body_children :=
         filter (\<lambda>x. elem_id x \<noteq> fresh d) (body_children d) @ [fst (stageContainer d)],
       selection := map_option (\<lambda>_. [NodeContents (fresh d)]) (selection d),
       text_selected := (if selection d = None then text_selected d else None)\<rparr>"
  by (cases "selection d")
     (simp_all add: stageContainer_def createElement_def appendChild_def removeAllRanges_def
        addRange_def Let_def)

lemma copyStyledLink_eq:
  "copyStyledLink p d =
     removeChild (fst (stageContainer d))
       (removeAllRanges
         (case exec_copy p of
            ExecTrue \<Rightarrow>
              alert ''Styled link copied! Paste into Outlook!''
                ((snd (stageContainer d))\<lparr>clipboard := copied p (snd (stageContainer d))\<rparr>)
          | ExecFalse \<Rightarrow> console_error ''Copy command was unsuccessful'' (snd (stageContainer d))
          | ExecThrows \<Rightarrow> console_error ''Copy failed'' (snd (stageContainer d))))"
  by (cases "exec_copy p")
     (simp_all add: copyStyledLink_def execCommand_copy_def Let_def split_beta)

lemma copied_staged:
  assumes "selection d \<noteq> None"
  shows "copied p (snd (stageContainer d))
           = \<lparr>html_rep = Some html, plain_rep = Some (text_of_markup p html)\<rparr>"
  using assms
  by (auto simp: document_staged copied_def lookup_def find_appended container_staged)

lemma copyStyledLink_clipboard:
  "clipboard (copyStyledLink p d) =
     (if exec_copy p = ExecTrue then copied p (snd (stageContainer d)) else clipboard d)"
  by (cases "exec_copy p")
     (simp_all add: copyStyledLink_eq document_staged container_staged removeChild_def
        removeAllRanges_def alert_def console_error_def)

lemma copyStyledLink_detaches:
  "body_children (copyStyledLink p d) = filter (\<lambda>x. elem_id x \<noteq> fresh d) (body_children d)"
  by (cases "exec_copy p")
     (simp_all add: copyStyledLink_eq document_staged container_staged removeChild_def
        removeAllRanges_def alert_def console_error_def)

lemma container_gone: "\<not> attached (fresh d) (copyStyledLink p d)"
  by (simp add: attached_def lookup_def copyStyledLink_detaches find_removed)

lemma fallback_detaches:
  assumes "clipboard_write p = WriteRejects" and "exec_copy p \<noteq> ExecThrows"
  shows "body_children (snd (copyFormattedLink p d))
           = filter (\<lambda>x. elem_id x \<noteq> fresh d) (body_children d)"
  using assms
  by (cases "exec_copy p")
     (simp_all add: copyFormattedLink_def createElement_def appendChild_def select_text_def
        execCommand_copy_def removeChild_def alert_def)

lemma fallback_result:
  assumes "clipboard_write p = WriteRejects" and "exec_copy p \<noteq> ExecThrows"
  shows "fst (copyFormattedLink p d) = Fulfilled"
    and "alerts (snd (copyFormattedLink p d)) = alerts d @ [''URL copied as plain text'']"
  using assms
  by (cases "exec_copy p";
      simp add: copyFormattedLink_def createElement_def appendChild_def select_text_def
        execCommand_copy_def removeChild_def alert_def)+

lemma fallback_unsuccessful:
  assumes "clipboard_write p = WriteRejects" and "exec_copy p \<noteq> ExecTrue"
  shows "clipboard (snd (copyFormattedLink p d)) = clipboard d"
  using assms
  by (cases "exec_copy p")
     (simp_all add: copyFormattedLink_def createElement_def appendChild_def select_text_def
        execCommand_copy_def removeChild_def alert_def)



section \<open>The claims\<close>

text \<open>
  Claim C1, as stated: after either copy operation completes, the plain-text
  representation on the clipboard equals the configured URL. It fails where the copy
  command reports failure: the textarea fallback of \<open>copyFormattedLink\<close> and
  \<open>copyStyledLink\<close> then leave the clipboard as it was (here empty). It also fails for
  \<open>copyStyledLink\<close> when the copy succeeds on a platform that derives the plain text by
  dropping the tags: the plain text is then the anchor's label.
\<close>

theorem plain_text_is_not_always_the_url:
  \<open>plain_rep (clipboard (snd (copyFormattedLink (sample_platform WriteRejects ExecFalse) empty_page)))
       \<noteq> Some url
   \<and> plain_rep (clipboard (copyStyledLink (sample_platform WriteResolves ExecFalse) empty_page))
       \<noteq> Some ''https://example.com''
   \<and> plain_rep (clipboard (copyStyledLink (sample_platform WriteResolves ExecTrue) empty_page))
       \<noteq> Some ''https://example.com''\<close>
proof -
  have "plain_rep (clipboard (snd (copyFormattedLink (sample_platform WriteRejects ExecFalse) empty_page))) = None"
    by (simp add: copyFormattedLink_def sample_platform_def empty_page_def createElement_def
        appendChild_def select_text_def execCommand_copy_def removeChild_def alert_def)
  moreover have "plain_rep (clipboard (copyStyledLink (sample_platform WriteResolves ExecFalse) empty_page)) = None"
    by (simp add: copyStyledLink_clipboard sample_platform_def empty_page_def)
  moreover have "plain_rep (clipboard (copyStyledLink (sample_platform WriteResolves ExecTrue) empty_page))
      = Some (strip_tags False html)"
    by (simp add: copyStyledLink_clipboard copied_staged sample_platform_def empty_page_def)
  moreover have \<open>strip_tags False html = ''\<newline>      Click Me''\<close>
    by (simp add: html_def)
  ultimately show ?thesis by simp
qed

text \<open>
  Claim C1, amended: after \<open>copyFormattedLink\<close>, the plain-text representation equals
  its URL whenever the multi-format write resolved or the copy command of the fallback
  returned \<^verbatim>\<open>true\<close>. After \<open>copyStyledLink\<close> in a window that has a selection object,
  when the copy command returned \<^verbatim>\<open>true\<close>, the plain-text representation is the text
  the platform derives from the anchor markup.
\<close>

theorem plain_text_after_copy:
  "(clipboard_write p = WriteResolves \<or> exec_copy p = ExecTrue \<longrightarrow>
      plain_rep (clipboard (snd (copyFormattedLink p d))) = Some url)
   \<and> (exec_copy p = ExecTrue \<and> selection d \<noteq> None \<longrightarrow>
      plain_rep (clipboard (copyStyledLink p d)) = Some (text_of_markup p html))"
proof (intro conjI impI)
  assume "clipboard_write p = WriteResolves \<or> exec_copy p = ExecTrue"
  then show "plain_rep (clipboard (snd (copyFormattedLink p d))) = Some url"
    by (cases "clipboard_write p") (simp_all add: write_sets_both fallback_copies_url plainText_def)
next
  assume "exec_copy p = ExecTrue \<and> selection d \<noteq> None"
  then show "plain_rep (clipboard (copyStyledLink p d)) = Some (text_of_markup p html)"
    by (simp add: copyStyledLink_clipboard copied_staged)
qed

text \<open>
  The amended claim C1 on the sample platform, where the write rejects and the copy
  command succeeds: the fallback leaves the URL, \<open>copyStyledLink\<close> leaves the label.
\<close>

theorem plain_text_after_copy_witness:
  \<open>plain_rep (clipboard (snd (copyFormattedLink (sample_platform WriteRejects ExecTrue) empty_page)))
      = Some ''https://your-domain.com/your-path''
   \<and> plain_rep (clipboard (copyStyledLink (sample_platform WriteRejects ExecTrue) empty_page))
      = Some ''\<newline>      Click Me''\<close>
proof -
  have \<open>strip_tags False html = ''\<newline>      Click Me''\<close>
    by (simp add: html_def)
  then show ?thesis
    using plain_text_after_copy [of "sample_platform WriteRejects ExecTrue" empty_page]
    by (simp add: sample_platform_def empty_page_def url_def)
qed

text \<open>
  Claim C2: \<open>copyFormattedLink\<close> never lets an exception leave it. The code breaks
  this when the write rejects and \<^verbatim>\<open>document.execCommand("copy")\<close> throws in the
  fallback: the \<^verbatim>\<open>catch\<close> block has no handler of its own (the \<^verbatim>\<open>try\<close> around
  the same call in \<open>copyStyledLink\<close> has one), so the promise is rejected and no
  message is shown.
\<close>

theorem fallback_exception_escapes:
  "fst (copyFormattedLink \<lparr>clipboard_write = WriteRejects, exec_copy = ExecThrows,
                            text_of_markup = f\<rparr> d) = Rejected
   \<and> alerts (snd (copyFormattedLink \<lparr>clipboard_write = WriteRejects, exec_copy = ExecThrows,
                                      text_of_markup = f\<rparr> d)) = alerts d"
  by (simp add: copyFormattedLink_def createElement_def appendChild_def select_text_def
      execCommand_copy_def)

text \<open>
  Claim C3: the temporary container is removed from the document on every outcome.
  \<open>copyStyledLink\<close> does so (\<open>copyStyledLink_detaches\<close>), and so does the fallback of
  \<open>copyFormattedLink\<close> when the copy command returns (\<open>fallback_detaches\<close>). When the
  copy command throws in the fallback, \<^verbatim>\<open>removeChild\<close> is not reached: the textarea
  holding the URL is still a child of the body when the operation ends.
\<close>

theorem fallback_textarea_left_attached:
  "lookup (fresh d)
     (snd (copyFormattedLink \<lparr>clipboard_write = WriteRejects, exec_copy = ExecThrows,
                             text_of_markup = f\<rparr> d))
   = Some \<lparr>elem_id = fresh d, tag_name = Textarea, val = plainText, innerHTML = [],
           style_position = [], style_opacity = [], contentEditable = []\<rparr>
   \<and> attached (fresh d)
     (snd (copyFormattedLink \<lparr>clipboard_write = WriteRejects, exec_copy = ExecThrows,
                             text_of_markup = f\<rparr> d))"
  by (simp add: copyFormattedLink_def createElement_def appendChild_def select_text_def
      execCommand_copy_def attached_def lookup_def find_appended)

text \<open>
  Claim C4, as stated: when the multi-format write rejects, \<open>copyFormattedLink\<close>
  leaves \<^verbatim>\<open>https://example.com\<close> in the plain-text slot. It does not: the URL of
  \<open>copyFormattedLink\<close> is \<^verbatim>\<open>https://your-domain.com/your-path\<close>
  (\<^verbatim>\<open>https://example.com\<close> is the target in \<open>copyStyledLink\<close>).
\<close>

theorem fallback_url_is_not_example_com:
  \<open>fst (copyFormattedLink (sample_platform WriteRejects ExecTrue) empty_page) = Fulfilled
   \<and> plain_rep (clipboard (snd (copyFormattedLink (sample_platform WriteRejects ExecTrue) empty_page)))
       \<noteq> Some ''https://example.com''\<close>
  by (simp add: fallback_copies_url fallback_result sample_platform_def plainText_def url_def)

text \<open>
  Claim C4, amended: when the multi-format write rejects and the copy command of the
  fallback returns \<^verbatim>\<open>true\<close>, \<open>copyFormattedLink\<close> returns normally, the clipboard
  holds \<^verbatim>\<open>https://your-domain.com/your-path\<close> as plain text and nothing as HTML, and the
  notification "URL copied as plain text" is shown.
\<close>

theorem fallback_notification:
  \<open>clipboard_write p = WriteRejects \<Longrightarrow> exec_copy p = ExecTrue \<Longrightarrow>
     fst (copyFormattedLink p d) = Fulfilled
     \<and> plain_rep (clipboard (snd (copyFormattedLink p d))) = Some ''https://your-domain.com/your-path''
     \<and> html_rep (clipboard (snd (copyFormattedLink p d))) = None
     \<and> alerts (snd (copyFormattedLink p d)) = alerts d @ [''URL copied as plain text'']\<close>
  by (simp add: fallback_copies_url fallback_result plainText_def url_def)

text \<open>The amended claim C4 on the sample platform and the empty page.\<close>

theorem fallback_notification_witness:
  \<open>plain_rep (clipboard (snd (copyFormattedLink (sample_platform WriteRejects ExecTrue) empty_page)))
       = Some ''https://your-domain.com/your-path''
   \<and> alerts (snd (copyFormattedLink (sample_platform WriteRejects ExecTrue) empty_page))
       = [''URL copied as plain text'']\<close>
  using fallback_notification [of "sample_platform WriteRejects ExecTrue" empty_page]
  by (simp add: sample_platform_def empty_page_def)

text \<open>
  Claim C5, as stated: after \<open>copyFormattedLink\<close> returns, the clipboard holds both
  representations or plain text only, and is never left unmodified. It fails when the
  write rejects and the copy command of the fallback returns \<^verbatim>\<open>false\<close>: the
  operation returns normally and the clipboard, empty before, is empty after.
\<close>

theorem clipboard_can_stay_unmodified:
  "fst (copyFormattedLink (sample_platform WriteRejects ExecFalse) empty_page) = Fulfilled
   \<and> clipboard (snd (copyFormattedLink (sample_platform WriteRejects ExecFalse) empty_page))
       = clipboard empty_page
   \<and> html_rep (clipboard empty_page) = None
   \<and> plain_rep (clipboard empty_page) = None"
  by (simp add: fallback_unsuccessful fallback_result sample_platform_def)
     (simp add: empty_page_def)

text \<open>
  Claim C5, amended: \<open>copyFormattedLink\<close> returns with both an HTML and a plain-text
  representation on the clipboard when the multi-format write resolved, and with a
  plain-text representation only when the write rejected and the copy command of the
  fallback returned \<^verbatim>\<open>true\<close>.
\<close>

theorem clipboard_after_return:
  "(clipboard_write p = WriteResolves \<longrightarrow>
      fst (copyFormattedLink p d) = Fulfilled
      \<and> clipboard (snd (copyFormattedLink p d))
          = \<lparr>html_rep = Some fullHtml, plain_rep = Some plainText\<rparr>)
   \<and> (clipboard_write p = WriteRejects \<and> exec_copy p = ExecTrue \<longrightarrow>
      fst (copyFormattedLink p d) = Fulfilled
      \<and> clipboard (snd (copyFormattedLink p d))
          = \<lparr>html_rep = None, plain_rep = Some plainText\<rparr>)"
  by (simp add: write_sets_both fallback_copies_url fallback_result)
     (simp add: copyFormattedLink_def)

text \<open>The two cases of the amended claim C5 on the sample platform.\<close>

theorem clipboard_after_return_witness:
  "clipboard (snd (copyFormattedLink (sample_platform WriteResolves ExecFalse) empty_page))
     = \<lparr>html_rep = Some fullHtml, plain_rep = Some plainText\<rparr>
   \<and> clipboard (snd (copyFormattedLink (sample_platform WriteRejects ExecTrue) empty_page))
     = \<lparr>html_rep = None, plain_rep = Some plainText\<rparr>"
  using clipboard_after_return [of "sample_platform WriteResolves ExecFalse" empty_page]
    clipboard_after_return [of "sample_platform WriteRejects ExecTrue" empty_page]
  by (simp add: sample_platform_def)







text \<open>
  Claim C9: \<open>copyStyledLink\<close> shows a notification exactly when the copy command
  returned \<^verbatim>\<open>true\<close>, and then only the success message; a copy command that returns
  \<^verbatim>\<open>false\<close> or throws adds one line to the console and nothing to what the user sees.
\<close>

theorem styled_link_reporting:
  "alerts (copyStyledLink p d) =
     alerts d @ (if exec_copy p = ExecTrue then [''Styled link copied! Paste into Outlook!''] else [])
   \<and> console_errors (copyStyledLink p d) =
     console_errors d @
       (case exec_copy p of
          ExecTrue \<Rightarrow> []
        | ExecFalse \<Rightarrow> [''Copy command was unsuccessful'']
        | ExecThrows \<Rightarrow> [''Copy failed''])"
  by (cases "exec_copy p")
     (simp_all add: copyStyledLink_eq document_staged removeChild_def removeAllRanges_def
        alert_def console_error_def)

text \<open>
  Claim C10: whatever the copy command did, the selection has no range when
  \<open>copyStyledLink\<close> returns; the ranges it had before the call are gone.
\<close>

theorem styled_link_clears_selection:
  "selection (copyStyledLink p d) = map_option (\<lambda>_. []) (selection d)
   \<and> rangeCount (copyStyledLink p d) = 0"
proof -
  have "selection (copyStyledLink p d) = map_option (\<lambda>_. []) (selection d)"
    by (cases "exec_copy p"; cases "selection d")
       (simp_all add: copyStyledLink_eq document_staged removeChild_def removeAllRanges_def
          alert_def console_error_def)
  then show ?thesis
    by (cases "selection d") (simp_all add: rangeCount_def)
qed

end
